theory Spec2Isabelle
  imports Complex_Main "HOL-Library.Sublist"
begin

section \<open>Python values used by dotfiles\_kaizen/main.py\<close>

text \<open>
  A Python \<open>str\<close> is a sequence of Unicode code points and \<open>len\<close> counts code points,
  so a string is modelled as a list of code points (natural numbers). The issue body of
  the report phase holds characters beyond U+00FF, which an 8-bit \<open>char\<close> cannot hold.
  \<open>lit\<close> turns an ASCII literal of the source into such a string.
\<close>

type_synonym pystr = "nat list"

definition lit :: "string \<Rightarrow> pystr" where
  "lit s = map of_char s"

text \<open>
  The exceptions the modelled code can raise. \<open>RequestException\<close> is the base class of
  every failure of the \<open>requests\<close> library (connection error, timeout, an HTTP error
  status turned into an exception by \<open>raise_for_status\<close>); it carries its message.
  \<open>PyException\<close> is a plain \<open>Exception(msg)\<close>.
\<close>

datatype py_error =
    KeyError
  | TypeError
  | ValueError
  | IndexError
  | RequestException pystr
  | PyException pystr

subsection \<open>Built-in string operations\<close>

text \<open>
  \<open>text.find(sub, start)\<close>: the lowest index \<open>i \<ge> start\<close> with
  \<open>text[i:i+len(sub)] == sub\<close>, or \<open>-1\<close>. \<open>scan sub cs i\<close> walks the rest \<open>cs\<close> of the
  text, \<open>i\<close> being the index of its first character.
\<close>

fun scan :: "pystr \<Rightarrow> pystr \<Rightarrow> nat \<Rightarrow> nat option" where
  "scan sub [] i = (if sub = [] then Some i else None)"
| "scan sub (c # cs) i = (if prefix sub (c # cs) then Some i else scan sub cs (Suc i))"

definition str_find :: "pystr \<Rightarrow> pystr \<Rightarrow> nat \<Rightarrow> int" where
  "str_find text sub start =
     (if length text < start then - 1
      else case scan sub (drop start text) start of None \<Rightarrow> - 1 | Some i \<Rightarrow> int i)"

text \<open>\<open>text.index(sub)\<close>: as \<open>find\<close> from 0, but raises \<open>ValueError\<close> when not found.\<close>

definition str_index :: "pystr \<Rightarrow> pystr \<Rightarrow> py_error + nat" where
  "str_index text sub = (case scan sub text 0 of None \<Rightarrow> Inl ValueError | Some i \<Rightarrow> Inr i)"

text \<open>\<open>sub in text\<close> for strings.\<close>

definition str_contains :: "pystr \<Rightarrow> pystr \<Rightarrow> bool" where
  "str_contains sub text = (scan sub text 0 \<noteq> None)"

text \<open>
  \<open>c.isspace()\<close> for one code point, as CPython 3 tabulates it
  (\<open>_PyUnicode_IsWhitespace\<close>): U+0009..U+000D, U+001C..U+0020, U+0085, U+00A0, U+1680,
  U+2000..U+200A, U+2028, U+2029, U+202F, U+205F, U+3000.
\<close>

definition isspace :: "nat \<Rightarrow> bool" where
  "isspace c =
     ((9 \<le> c \<and> c \<le> 13) \<or> (28 \<le> c \<and> c \<le> 32) \<or> c = 133 \<or> c = 160 \<or> c = 5760 \<or>
      (8192 \<le> c \<and> c \<le> 8202) \<or> c = 8232 \<or> c = 8233 \<or> c = 8239 \<or> c = 8287 \<or>
      c = 12288)"

text \<open>\<open>s.strip()\<close>: leading and trailing whitespace removed.\<close>

definition strip :: "pystr \<Rightarrow> pystr" where
  "strip s = rev (dropWhile isspace (rev (dropWhile isspace s)))"

text \<open>\<open>text[a:b]\<close> and \<open>text[a:]\<close> for indices \<open>0 \<le> a\<close>, \<open>0 \<le> b\<close>.\<close>

definition slice :: "pystr \<Rightarrow> nat \<Rightarrow> nat \<Rightarrow> pystr" where
  "slice text a b = drop a (take b text)"

definition slice_from :: "pystr \<Rightarrow> nat \<Rightarrow> pystr" where
  "slice_from text a = drop a text"

section \<open>\<open>DotfilesKaizen._extract_section\<close>\<close>

text \<open>
  The body of the \<open>try\<close> block. \<open>text.index(header)\<close> is its only statement that can
  raise.
\<close>

definition extract_section_try :: "pystr \<Rightarrow> pystr \<Rightarrow> py_error + pystr" where
  "extract_section_try text section_name =
     (let header = lit ''## '' @ section_name in
      case str_index text header of
        Inl e \<Rightarrow> Inl e
      | Inr start \<Rightarrow>
          let content_start = start + length header;
              next_section_start = str_find text (lit ''\<newline>## '') content_start
          in if next_section_start = - 1 then Inr (strip (slice_from text content_start))
             else Inr (strip (slice text content_start (nat next_section_start))))"

text \<open>\<open>except ValueError: return ""\<close>; any other exception would propagate.\<close>

definition extract_section :: "pystr \<Rightarrow> pystr \<Rightarrow> py_error + pystr" where
  "extract_section text section_name =
     (case extract_section_try text section_name of
        Inl ValueError \<Rightarrow> Inr []
      | Inl e \<Rightarrow> Inl e
      | Inr s \<Rightarrow> Inr s)"

text \<open>\<open>sep.join(items)\<close> for a list of strings.\<close>

fun str_join :: "pystr \<Rightarrow> pystr list \<Rightarrow> pystr" where
  "str_join sep [] = []"
| "str_join sep [x] = x"
| "str_join sep (x # y # ys) = x @ sep @ str_join sep (y # ys)"

section \<open>The data classes\<close>

text \<open>The \<open>score\<close> is a float that the code only copies.\<close>

record SearchResult =
  title :: pystr
  url :: pystr
  content :: pystr
  score :: real

record ResearchOutput =
  sources :: "SearchResult list"
  summary :: pystr
  search_query :: pystr

record AnalysisOutput =
  gap_analysis :: pystr
  recommendations :: pystr
  implementation_guide :: pystr
  full_response :: pystr

section \<open>\<open>DotfilesKaizen._format_sources\<close> and \<open>_format_sources_list\<close>\<close>

text \<open>
  The loop over \<open>sources[:5]\<close>, with \<open>formatted_items\<close> as its accumulator:
  \<open>content = s.content[:200]\<close>, then \<open>content += "..."\<close> when \<open>len(s.content) > 200\<close>, then
  the item \<open>f"- {s.title}: {content}"\<close> is appended.
\<close>

fun format_sources_loop :: "SearchResult list \<Rightarrow> pystr list \<Rightarrow> pystr list" where
  "format_sources_loop [] formatted_items = formatted_items"
| "format_sources_loop (s # rest) formatted_items =
     (let c = take 200 (content s);
          c = (if 200 < length (content s) then c @ lit ''...'' else c)
      in format_sources_loop rest (formatted_items @ [lit ''- '' @ title s @ lit '': '' @ c]))"

definition format_sources :: "SearchResult list \<Rightarrow> pystr" where
  "format_sources srcs = str_join (lit ''\<newline>'') (format_sources_loop (take 5 srcs) [])"

definition format_sources_list :: "SearchResult list \<Rightarrow> pystr" where
  "format_sources_list srcs =
     str_join (lit ''\<newline>'')
       (map (\<lambda>s. lit ''- ['' @ title s @ lit '']('' @ url s @ lit '')'') (take 5 srcs))"

section \<open>\<open>get_domain_config\<close>\<close>

text \<open>
  \<open>load_config\<close> returns whatever \<open>json.load\<close> parsed, so the configuration is a JSON value;
  a dict is an association list (its keys are distinct in a parsed document).
\<close>

datatype json =
    JNull
  | JBool bool
  | JNum real
  | JStr pystr
  | JArr "json list"
  | JObj "(pystr \<times> json) list"

text \<open>\<open>d.get(key, default)\<close> on a dict.\<close>

definition dict_get :: "(pystr \<times> json) list \<Rightarrow> pystr \<Rightarrow> json \<Rightarrow> json" where
  "dict_get d key dflt = (case map_of d key of None \<Rightarrow> dflt | Some v \<Rightarrow> v)"

text \<open>
  \<open>for x in v\<close>: a list gives its elements, a dict its keys, a string its characters; any
  other JSON value is not iterable (\<open>TypeError\<close>).
\<close>

fun iterate :: "json \<Rightarrow> py_error + json list" where
  "iterate (JArr xs) = Inr xs"
| "iterate (JObj kvs) = Inr (map (\<lambda>kv. JStr (fst kv)) kvs)"
| "iterate (JStr s) = Inr (map (\<lambda>c. JStr [c]) s)"
| "iterate v = Inl TypeError"

text \<open>
  \<open>v[key]\<close> with a string key: a dict raises \<open>KeyError\<close> when the key is missing; every
  other JSON value raises \<open>TypeError\<close>.
\<close>

fun subscript :: "json \<Rightarrow> pystr \<Rightarrow> py_error + json" where
  "subscript (JObj kvs) key = (case map_of kvs key of None \<Rightarrow> Inl KeyError | Some v \<Rightarrow> Inr v)"
| "subscript v key = Inl TypeError"

text \<open>The \<open>for domain in ...\<close> loop; \<open>domain["id"] == domain_id\<close> compares with a string.\<close>

fun get_domain_config_loop :: "json list \<Rightarrow> pystr \<Rightarrow> py_error + json option" where
  "get_domain_config_loop [] domain_id = Inr None"
| "get_domain_config_loop (d # rest) domain_id =
     (case subscript d (lit ''id'') of
        Inl e \<Rightarrow> Inl e
      | Inr v \<Rightarrow> if v = JStr domain_id then Inr (Some d)
                else get_domain_config_loop rest domain_id)"

definition get_domain_config :: "(pystr \<times> json) list \<Rightarrow> pystr \<Rightarrow> py_error + json option" where
  "get_domain_config config domain_id =
     (case iterate (dict_get config (lit ''domains'') (JArr [])) of
        Inl e \<Rightarrow> Inl e
      | Inr ds \<Rightarrow> get_domain_config_loop ds domain_id)"

section \<open>The API clients\<close>

text \<open>
  What the process does to the outside world, in order: the HTTP requests with the
  arguments that decide their payload, and the calls of \<open>time.sleep\<close> with their seconds.
  Diagnostic \<open>print\<close> output is left out.
\<close>

datatype event =
    TavilyPost pystr int "pystr list" "pystr list"
  | AnthropicPost pystr pystr real
  | IssuePost pystr pystr "pystr list" "pystr list"
  | IssueSearch pystr
  | CommentPost int pystr
  | Sleep nat

definition MAX_RETRIES :: nat where
  "MAX_RETRIES = 3"

definition RETRY_DELAY :: nat where
  "RETRY_DELAY = 2"

text \<open>
  The retry loop that \<open>TavilyClient.search\<close>, \<open>AnthropicClient.generate_response\<close> and
  \<open>GitHubClient.create_issue\<close> each write out: \<open>for attempt in range(MAX_RETRIES)\<close> around a
  \<open>try\<close> block. \<open>request attempt\<close> is the outcome of the \<open>try\<close> block's body at that attempt
  (the value it returns, or the exception it raises), \<open>ev\<close> the request it sends and
  \<open>failed\<close> the message of the exception raised after the loop.
\<close>

fun retry_loop ::
  "event \<Rightarrow> (nat \<Rightarrow> py_error + 'a) \<Rightarrow> pystr \<Rightarrow> nat list \<Rightarrow> event list \<Rightarrow> (py_error + 'a) \<times> event list"
where
  "retry_loop ev request failed [] trace = (Inl (PyException failed), trace)"
| "retry_loop ev request failed (attempt # rest) trace =
     (case request attempt of
        Inr response \<Rightarrow> (Inr response, trace @ [ev])
      | Inl (RequestException e) \<Rightarrow>
          if attempt = MAX_RETRIES - 1 then (Inl (RequestException e), trace @ [ev])
          else retry_loop ev request failed rest
                 (trace @ [ev, Sleep (RETRY_DELAY * (attempt + 1))])
      | Inl err \<Rightarrow> (Inl err, trace @ [ev]))"

text \<open>
  Two notions used to state how the loop behaves. An attempt is transient when its \<open>try\<close>
  block raised a \<open>RequestException\<close>. \<open>linear_backoff ev k\<close> is what the process does when
  the first \<open>k\<close> attempts are retried: each of them sends \<open>ev\<close> and then sleeps for the base
  delay times its attempt number (counted from 1), and attempt \<open>k + 1\<close> sends \<open>ev\<close> again.
\<close>

definition transient :: "py_error + 'a \<Rightarrow> bool" where
  "transient r = (case r of Inl (RequestException e) \<Rightarrow> True | _ \<Rightarrow> False)"

definition linear_backoff :: "event \<Rightarrow> nat \<Rightarrow> event list" where
  "linear_backoff ev k = concat (map (\<lambda>n. [ev, Sleep (RETRY_DELAY * n)]) [1..<Suc k]) @ [ev]"

text \<open>\<open>x or []\<close> for an optional list argument.\<close>

definition or_empty :: "'a list option \<Rightarrow> 'a list" where
  "or_empty xs = (case xs of None \<Rightarrow> [] | Some ys \<Rightarrow> ys)"

definition TavilyClient_search ::
  "(nat \<Rightarrow> py_error + 'a) \<Rightarrow> pystr \<Rightarrow> int \<Rightarrow> pystr list option \<Rightarrow> pystr list option
     \<Rightarrow> (py_error + 'a) \<times> event list" where
  "TavilyClient_search post query max_results include_domains exclude_domains =
     retry_loop (TavilyPost query max_results (or_empty include_domains) (or_empty exclude_domains))
       post (lit ''Tavily API request failed after max retries'') [0..<MAX_RETRIES] []"

definition AnthropicClient_generate_response ::
  "(nat \<Rightarrow> py_error + pystr) \<Rightarrow> pystr \<Rightarrow> pystr \<Rightarrow> real \<Rightarrow> (py_error + pystr) \<times> event list" where
  "AnthropicClient_generate_response post system_prompt user_prompt temperature =
     retry_loop (AnthropicPost system_prompt user_prompt temperature)
       post (lit ''Anthropic API request failed after max retries'') [0..<MAX_RETRIES] []"

text \<open>An issue as the tracker returns it; the code reads its \<open>number\<close> and \<open>html_url\<close>.\<close>

record issue =
  number :: int
  html_url :: pystr

definition GitHubClient_create_issue ::
  "(nat \<Rightarrow> py_error + issue) \<Rightarrow> pystr \<Rightarrow> pystr \<Rightarrow> pystr list option \<Rightarrow> pystr list option
     \<Rightarrow> (py_error + issue) \<times> event list" where
  "GitHubClient_create_issue post ttl body labels assignees =
     retry_loop (IssuePost ttl body (or_empty labels) (or_empty assignees))
       post (lit ''GitHub API request failed after max retries'') [0..<MAX_RETRIES] []"

text \<open>The body of a successful answer of the issue-search endpoint.\<close>

record search_data =
  total_count :: int
  items :: "issue list"

text \<open>
  \<open>GitHubClient.find_existing_issue\<close>. \<open>get q\<close> is the outcome of the \<open>try\<close> block's request
  for the query \<open>q\<close>: the parsed answer, or the exception raised by \<open>requests.get\<close>,
  \<open>raise_for_status\<close> or \<open>response.json\<close>. Only a \<open>RequestException\<close> is caught.
\<close>

definition GitHubClient_find_existing_issue ::
  "pystr \<Rightarrow> (pystr \<Rightarrow> py_error + search_data) \<Rightarrow> pystr \<Rightarrow> (py_error + issue option) \<times> event list" where
  "GitHubClient_find_existing_issue repository get title_prefix =
     (let search_query = lit ''repo:'' @ repository @ lit '' is:issue is:open in:title '' @ title_prefix
      in (case get search_query of
            Inr data \<Rightarrow>
              if 0 < total_count data
              then (case items data of [] \<Rightarrow> Inl IndexError | first # _ \<Rightarrow> Inr (Some first))
              else Inr None
          | Inl (RequestException e) \<Rightarrow> Inr None
          | Inl err \<Rightarrow> Inl err,
          [IssueSearch search_query]))"

text \<open>
  \<open>GitHubClient.add_comment\<close>: one request, and a \<open>RequestException\<close> is wrapped into
  \<open>Exception(f"Failed to add comment: {e}")\<close>.
\<close>

definition GitHubClient_add_comment ::
  "(py_error + json) \<Rightarrow> int \<Rightarrow> pystr \<Rightarrow> (py_error + json) \<times> event list" where
  "GitHubClient_add_comment post issue_number body =
     (case post of
        Inr response \<Rightarrow> Inr response
      | Inl (RequestException e) \<Rightarrow> Inl (PyException (lit ''Failed to add comment: '' @ e))
      | Inl err \<Rightarrow> Inl err,
      [CommentPost issue_number body])"

section \<open>The configuration as the pipeline phases read it\<close>

text \<open>
  The phases read \<open>global_settings\<close> with \<open>.get\<close>, so each entry may be absent. The value of
  \<open>issue_labels\<close> is a list object that the report phase could mutate; it is kept in a store
  of list objects and the configuration holds its address.
\<close>

type_synonym heap = "pystr list list"

record settings =
  max_search_results :: "int option"
  analysis_temperature :: "real option"
  issue_labels :: "nat option"

record kaizen_config =
  global_settings :: "settings option"

text \<open>
  A domain entry with the keys the collect and report phases subscript: \<open>id\<close>, \<open>name\<close> and
  \<open>search_hints\<close>.
\<close>

record search_hints =
  primary_keywords :: "pystr list"
  focus_areas :: "pystr list"
  exclude_domains :: "pystr list option"
  exclude_terms :: "pystr list option"

record domain_config =
  dom_id :: pystr
  dom_name :: pystr
  dom_search_hints :: search_hints

text \<open>\<open>list(xs)\<close> and a list display allocate a new list object; \<open>xs.append(x)\<close> updates one.\<close>

definition new_list :: "heap \<Rightarrow> pystr list \<Rightarrow> nat \<times> heap" where
  "new_list h xs = (length h, h @ [xs])"

definition list_append :: "heap \<Rightarrow> nat \<Rightarrow> pystr \<Rightarrow> heap" where
  "list_append h a x = h[a := h ! a @ [x]]"

section \<open>\<open>DotfilesKaizen.collect_trends\<close>\<close>

text \<open>
  The answer of the search API: \<open>results\<close> and \<open>answer\<close> are read with \<open>.get\<close>; an entry of
  \<open>results\<close> is a dict with at least the keys \<open>title\<close>, \<open>url\<close>, \<open>content\<close> and \<open>score\<close>, which
  is what an extension of the record \<open>SearchResult\<close> is.
\<close>

record 'a tavily_response =
  results :: "'a SearchResult_scheme list option"
  answer :: "pystr option"

text \<open>
  The loop that filters the results, with \<open>sources\<close> as its accumulator. \<open>lower\<close> stands for
  Python's \<open>str.lower\<close>, which is not code of this repository; \<open>any\<close> over the excluded terms
  is \<open>list_ex\<close>.
\<close>

fun collect_trends_loop ::
  "(pystr \<Rightarrow> pystr) \<Rightarrow> search_hints \<Rightarrow> 'a SearchResult_scheme list \<Rightarrow> SearchResult list
     \<Rightarrow> SearchResult list" where
  "collect_trends_loop lower hints [] srcs = srcs"
| "collect_trends_loop lower hints (result # rest) srcs =
     (let title_lower = lower (title result);
          content_lower = lower (content result);
          terms = map lower (or_empty (exclude_terms hints))
      in if list_ex (\<lambda>t. str_contains t title_lower \<or> str_contains t content_lower) terms
         then collect_trends_loop lower hints rest srcs
         else collect_trends_loop lower hints rest
                (srcs @ [\<lparr>title = title result, url = url result, content = content result,
                          score = score result\<rparr>]))"

text \<open>
  What \<open>str.lower\<close> computes on a string of ASCII characters: \<open>A\<close> to \<open>Z\<close> become \<open>a\<close> to
  \<open>z\<close>. It instantiates \<open>lower\<close> where a concrete run is evaluated.
\<close>

definition ascii_lower :: "pystr \<Rightarrow> pystr" where
  "ascii_lower s = map (\<lambda>c. if 65 \<le> c \<and> c \<le> 90 then c + 32 else c) s"

text \<open>
  \<open>collect_trends\<close>. \<open>current_year\<close> is \<open>datetime.now().year\<close> as the f-string prints it and
  \<open>post\<close> the outcomes of the attempts of the search request.
\<close>

definition collect_trends ::
  "(pystr \<Rightarrow> pystr) \<Rightarrow> (nat \<Rightarrow> py_error + 'a tavily_response) \<Rightarrow> pystr \<Rightarrow> kaizen_config
     \<Rightarrow> domain_config \<Rightarrow> (py_error + ResearchOutput) \<times> event list" where
  "collect_trends lower post current_year config domain =
     (let hints = dom_search_hints domain;
          keywords = str_join (lit '' '') (primary_keywords hints);
          focus = str_join (lit '' '') (focus_areas hints);
          query = keywords @ lit '' '' @ focus @ lit '' '' @ current_year;
          max_results =
            (case global_settings config of
               None \<Rightarrow> 10
             | Some gs \<Rightarrow> (case max_search_results gs of None \<Rightarrow> 10 | Some n \<Rightarrow> n));
          (r, trace) =
            TavilyClient_search post query max_results None
              (Some (or_empty (exclude_domains hints)))
      in case r of
           Inl e \<Rightarrow> (Inl e, trace)
         | Inr response \<Rightarrow>
             (Inr \<lparr>sources = collect_trends_loop lower hints (or_empty (results response)) [],
                   summary = (case answer response of
                                None \<Rightarrow> lit ''No summary available.''
                              | Some a \<Rightarrow> a),
                   search_query = query\<rparr>,
              trace))"

section \<open>\<open>DotfilesKaizen.report_findings\<close>\<close>

text \<open>
  The three f-strings of the report phase. \<open>today\<close> is
  \<open>datetime.now(timezone.utc).strftime("%Y-%m-%d")\<close> and \<open>now\<close> the second reading of the
  clock, formatted with \<open>"%Y-%m-%d %H:%M:%S UTC"\<close>. The four pictographs of the body are
  U+1F50D, U+1F4CA, U+1F4A1 and U+1F4DA.
\<close>

definition issue_title :: "domain_config \<Rightarrow> pystr \<Rightarrow> pystr" where
  "issue_title domain today = lit ''[Dotfiles Kaizen] '' @ dom_name domain @ lit '' - '' @ today"

definition issue_body :: "domain_config \<Rightarrow> pystr \<Rightarrow> ResearchOutput \<Rightarrow> AnalysisOutput \<Rightarrow> pystr" where
  "issue_body domain now research_output analysis_output =
     lit ''\<newline>## '' @ [128269] @ lit '' Analysis Overview\<newline>- **Domain**: ''
     @ dom_name domain
     @ lit ''\<newline>- **Date**: '' @ now
     @ lit ''\<newline>- **Search Query**: '' @ [96] @ search_query research_output @ [96]
     @ lit ''\<newline>\<newline>## '' @ [128202] @ lit '' Research Summary\<newline>''
     @ summary research_output
     @ lit ''\<newline>\<newline>## '' @ [128161] @ lit '' Analysis & Recommendations\<newline>''
     @ full_response analysis_output
     @ lit ''\<newline>\<newline>## '' @ [128218] @ lit '' Top Sources\<newline>''
     @ format_sources_list (sources research_output)
     @ lit ''\<newline>\<newline>---\<newline>*This issue was automatically generated by the Dotfiles Kaizen Workflow.*\<newline>''"

definition comment_body :: "pystr \<Rightarrow> ResearchOutput \<Rightarrow> AnalysisOutput \<Rightarrow> pystr" where
  "comment_body today research_output analysis_output =
     lit ''\<newline>### Update: '' @ today
     @ lit ''\<newline>\<newline>**Research Summary**:\<newline>'' @ summary research_output
     @ lit ''\<newline>\<newline>**New Recommendations**:\<newline>'' @ full_response analysis_output
     @ lit ''\<newline>''"

text \<open>What the issue tracker answers during one run of the report phase.\<close>

record github_env =
  issue_search :: "pystr \<Rightarrow> py_error + search_data"
  comment_post :: "py_error + json"
  issue_post :: "nat \<Rightarrow> py_error + issue"

text \<open>
  \<open>report_findings\<close>, on the store \<open>h\<close>. An issue returned by the search is a non-empty dict,
  hence true in \<open>if existing_issue\<close>. In the \<open>else\<close> branch the default
  \<open>["dotfiles-kaizen"]\<close> is allocated before \<open>.get\<close> is called, \<open>list(...)\<close> allocates the copy
  \<open>labels\<close>, and \<open>labels.append(domain["id"])\<close> updates the object at that address; the
  request then sends the content of \<open>labels\<close>.
\<close>

definition report_findings ::
  "github_env \<Rightarrow> pystr \<Rightarrow> pystr \<Rightarrow> pystr \<Rightarrow> kaizen_config \<Rightarrow> domain_config \<Rightarrow> ResearchOutput
     \<Rightarrow> AnalysisOutput \<Rightarrow> heap \<Rightarrow> (py_error + unit) \<times> event list \<times> heap" where
  "report_findings env repository today now config domain research_output analysis_output h =
     (let ttl = issue_title domain today;
          body = issue_body domain now research_output analysis_output;
          (existing_issue, trace1) =
            GitHubClient_find_existing_issue repository (issue_search env)
              (lit ''[Dotfiles Kaizen] '' @ dom_name domain)
      in case existing_issue of
           Inl e \<Rightarrow> (Inl e, trace1, h)
         | Inr (Some found) \<Rightarrow>
             let (r, trace2) =
                   GitHubClient_add_comment (comment_post env) (number found)
                     (comment_body today research_output analysis_output)
             in (case r of
                   Inl e \<Rightarrow> (Inl e, trace1 @ trace2, h)
                 | Inr _ \<Rightarrow> (Inr (), trace1 @ trace2, h))
         | Inr None \<Rightarrow>
             let (dflt, h1) = new_list h [lit ''dotfiles-kaizen''];
                 configured =
                   (case global_settings config of
                      None \<Rightarrow> dflt
                    | Some gs \<Rightarrow> (case issue_labels gs of None \<Rightarrow> dflt | Some a \<Rightarrow> a));
                 (labels, h2) = new_list h1 (h1 ! configured);
                 h3 = list_append h2 labels (dom_id domain);
                 (r, trace2) =
                   GitHubClient_create_issue (issue_post env) ttl body (Some (h3 ! labels)) None
             in (case r of
                   Inl e \<Rightarrow> (Inl e, trace1 @ trace2, h3)
                 | Inr _ \<Rightarrow> (Inr (), trace1 @ trace2, h3)))"

text \<open>
  Two notions used to state what the report phase does with the labels. The store fits the
  configuration when the address the configuration holds is allocated (Python has no
  dangling references). \<open>configured_labels\<close> is the content of the list that
  \<open>global_settings.get("issue_labels", ["dotfiles-kaizen"])\<close> evaluates to.
\<close>

definition config_ok :: "kaizen_config \<Rightarrow> heap \<Rightarrow> bool" where
  "config_ok config h =
     (case global_settings config of
        None \<Rightarrow> True
      | Some gs \<Rightarrow> (case issue_labels gs of None \<Rightarrow> True | Some a \<Rightarrow> a < length h))"

definition configured_labels :: "kaizen_config \<Rightarrow> heap \<Rightarrow> pystr list" where
  "configured_labels config h =
     (case global_settings config of
        None \<Rightarrow> [lit ''dotfiles-kaizen'']
      | Some gs \<Rightarrow> (case issue_labels gs of None \<Rightarrow> [lit ''dotfiles-kaizen''] | Some a \<Rightarrow> h ! a))"

section \<open>Facts about the string operations\<close>

lemma scan_None_iff: "scan sub cs i = None \<longleftrightarrow> \<not> sublist sub cs"
  by (induction cs arbitrary: i) (auto simp: sublist_Cons_right)

lemma prefix_append_short: "prefix a (b @ c) \<Longrightarrow> length a \<le> length b \<Longrightarrow> prefix a b"
  by (metis prefix_length_prefix prefixI prefix_order.order_refl append_prefixD prefix_append prefix_def)

lemma scan_here: "scan sub (sub @ ss) i = Some i"
proof (cases "sub @ ss")
  case Nil
  then show ?thesis by simp
next
  case (Cons a list)
  then have "prefix sub (a # list)" by (metis prefixI)
  with Cons show ?thesis by simp
qed

lemma scan_first_occurrence:
  "\<not> sublist sub (ps @ butlast sub) \<Longrightarrow> scan sub (ps @ sub @ ss) i = Some (i + length ps)"
proof (induction ps arbitrary: i)
  case Nil
  then show ?case by (simp add: scan_here)
next
  case (Cons c ps)
  from Cons.prems have ne: "sub \<noteq> []" by auto
  from Cons.prems have no_pre: "\<not> prefix sub (c # ps @ butlast sub)"
    and rest: "\<not> sublist sub (ps @ butlast sub)"
    by (auto simp: sublist_Cons_right)
  have "\<not> prefix sub (c # ps @ sub @ ss)"
  proof
    assume "prefix sub (c # ps @ sub @ ss)"
    moreover have "c # ps @ sub @ ss = (c # ps @ butlast sub) @ (last sub # ss)"
      using ne by simp
    ultimately have "prefix sub ((c # ps @ butlast sub) @ (last sub # ss))"
      by simp
    moreover have "length sub \<le> length (c # ps @ butlast sub)" by simp
    ultimately have "prefix sub (c # ps @ butlast sub)" by (rule prefix_append_short)
    with no_pre show False by simp
  qed
  with Cons.IH[OF rest] show ?case by simp
qed

lemma dropWhile_rev_fixed:
  assumes "dropWhile P xs = xs"
  shows "dropWhile P (rev (dropWhile P (rev xs))) = rev (dropWhile P (rev xs))"
proof (cases xs)
  case Nil
  then show ?thesis by simp
next
  case (Cons x xs')
  with assms have nP: "\<not> P x" by (metis hd_dropWhile list.sel(1) list.distinct(1))
  have "dropWhile P (rev xs' @ [x]) = dropWhile P (rev xs') @ [x]"
    using nP by (rule dropWhile_append3)
  with Cons nP show ?thesis by simp
qed

lemma strip_strip: "strip (strip s) = strip s"
proof -
  let ?d = "dropWhile isspace s"
  have "dropWhile isspace ?d = ?d" by simp
  then have "dropWhile isspace (rev (dropWhile isspace (rev ?d))) = rev (dropWhile isspace (rev ?d))"
    by (rule dropWhile_rev_fixed)
  then show ?thesis by (simp add: strip_def)
qed

lemma isspace_newline: "isspace 10"
  by (simp add: isspace_def)

lemma strip_newline: "strip (s @ lit ''\<newline>'') = strip s"
proof (cases "\<forall>x\<in>set s. isspace x")
  case True
  then show ?thesis
    by (auto simp add: strip_def lit_def isspace_newline dropWhile_append dest: set_dropWhileD)
next
  case False
  then show ?thesis by (auto simp add: strip_def lit_def isspace_newline dropWhile_append)
qed

lemma sublist_strip: "sublist (strip s) s"
proof -
  have "sublist (rev (strip s)) (rev (dropWhile isspace s))"
    by (simp add: strip_def)
  then have "sublist (strip s) (dropWhile isspace s)"
    by (simp only: sublist_rev)
  moreover have "sublist (dropWhile isspace s) s" by simp
  ultimately show ?thesis by (rule sublist_order.order_trans)
qed

lemma extract_between:
  assumes shape: "text = pre @ (lit ''## '' @ A) @ body @ lit ''\<newline>## '' @ rest"
    and first_header: "\<not> sublist (lit ''## '' @ A) (pre @ butlast (lit ''## '' @ A))"
    and next_header: "\<not> sublist (lit ''\<newline>## '') (body @ butlast (lit ''\<newline>## ''))"
  shows "extract_section text A = Inr (strip body)"
proof -
  let ?h = "lit ''## '' @ A"
  let ?m = "lit ''\<newline>## ''"
  let ?cs = "length pre + length ?h"
  have idx: "scan ?h text 0 = Some (length pre)"
    using scan_first_occurrence[OF first_header, of "body @ ?m @ rest" 0] shape by simp
  have dr: "drop ?cs text = body @ ?m @ rest"
    using shape by simp
  have nxt: "scan ?m (drop ?cs text) ?cs = Some (?cs + length body)"
    using scan_first_occurrence[OF next_header, of rest ?cs] dr by simp
  have len: "\<not> length text < ?cs" using shape by simp
  have fnd: "str_find text ?m ?cs = int (?cs + length body)"
    using nxt len by (simp add: str_find_def)
  have sl: "slice text ?cs (?cs + length body) = body"
    using shape by (simp add: slice_def)
  have ix: "str_index text ?h = Inr (length pre)"
    by (simp add: str_index_def idx)
  have "extract_section_try text A = Inr (strip (slice text ?cs (nat (int (?cs + length body)))))"
    unfolding extract_section_try_def Let_def ix using fnd by simp
  then have "extract_section_try text A = Inr (strip body)"
    by (simp only: nat_int sl)
  then show ?thesis
    by (simp add: extract_section_def)
qed


section \<open>Section extraction without the header\<close>

text \<open>
  Claim C7, as first stated: for every text without the second-level header of the requested
  section, extraction returns the empty string. The code looks for the substring
  \<open>"## " + section_name\<close>, not for a header line: a text whose only header is the
  third-level \<open>"### A"\<close>, and a text whose only header is \<open>"## AB"\<close>, have no second-level
  header \<open>A\<close>, yet extracting \<open>A\<close> returns the text after the match.
\<close>

theorem extract_section_other_header_counterexample:
  "extract_section (lit ''### A\<newline>x'') (lit ''A'') = Inr (lit ''x'')
   \<and> extract_section (lit ''## AB\<newline>foo'') (lit ''A'') = Inr (lit ''B\<newline>foo'')"
  by (simp add: extract_section_def extract_section_try_def str_index_def str_find_def
      slice_def slice_from_def strip_def isspace_def lit_def)

text \<open>
  Claim C7, amended. For every text that does not contain the string \<open>"## " + section_name\<close>
  as a substring, \<open>_extract_section\<close> returns the empty string and raises nothing.
\<close>

theorem extract_section_missing_header:
  assumes "\<not> sublist (lit ''## '' @ section_name) text"
  shows "extract_section text section_name = Inr []"
proof -
  from assms have "scan (lit ''## '' @ section_name) text 0 = None"
    by (simp add: scan_None_iff)
  then show ?thesis
    by (simp add: extract_section_def extract_section_try_def str_index_def)
qed

theorem extract_section_missing_header_witness:
  "extract_section (lit ''## Other Section\<newline>Content'') (lit ''Gap Analysis'') = Inr []"
proof -
  have "\<not> sublist (lit ''## '' @ lit ''Gap Analysis'') (lit ''## Other Section\<newline>Content'')"
    by (simp add: lit_def sublist_code)
  then show ?thesis
    by (rule extract_section_missing_header)
qed

section \<open>Section extraction between two headers\<close>

text \<open>
  Claim C3, as first stated: for every text with the header line \<open>"## A"\<close> followed later by
  a header \<open>"## B"\<close>, extracting \<open>A\<close> returns the trimmed text between the two headers, and the
  result never contains \<open>"## B"\<close>. The code searches for substrings, not for header lines:
  in the first text below the section holds a subsection \<open>"### B"\<close>, so the result contains
  \<open>"## B"\<close>; in the second the first occurrence of \<open>"## A"\<close> lies inside \<open>"### A"\<close>, and the
  result is the text after that line (\<open>"x"\<close>) and not the text after the header line (\<open>"y"\<close>).
\<close>

theorem extract_section_counterexample:
  "extract_section (lit ''## A\<newline>intro\<newline>### B\<newline>detail\<newline>## B\<newline>end'') (lit ''A'')
     = Inr (lit ''intro\<newline>### B\<newline>detail'')
   \<and> sublist (lit ''## B'') (lit ''intro\<newline>### B\<newline>detail'')
   \<and> extract_section (lit ''### A\<newline>x\<newline>## A\<newline>y\<newline>## B\<newline>z'') (lit ''A'') = Inr (lit ''x'')"
  by (simp add: extract_section_def extract_section_try_def str_index_def str_find_def
      slice_def slice_from_def strip_def isspace_def lit_def sublist_code)

text \<open>
  Claim C3, amended. Let the text be \<open>pre + "## A" + body + "\n## B" + rest\<close>, where this is
  the first occurrence of the substring \<open>"## A"\<close> in the text, no \<open>"\n## "\<close> starts inside
  \<open>body\<close>, and \<open>body\<close> does not contain \<open>"## B"\<close>. Then extracting \<open>A\<close> raises nothing and
  returns \<open>body\<close> trimmed, which is also the trimmed text up to the start of the \<open>"## B"\<close>
  header (the newline before it is whitespace); the result does not contain \<open>"## B"\<close>, and
  it is already trimmed: trimming it again changes nothing. The function reads nothing but
  its two arguments, so extracting again from the same text gives the same result.
\<close>

theorem extract_section_between_headers:
  assumes shape: "text = pre @ (lit ''## '' @ A) @ body @ lit ''\<newline>## '' @ B @ rest"
    and first_header: "\<not> sublist (lit ''## '' @ A) (pre @ butlast (lit ''## '' @ A))"
    and next_header: "\<not> sublist (lit ''\<newline>## '') (body @ butlast (lit ''\<newline>## ''))"
    and no_mention: "\<not> sublist (lit ''## '' @ B) body"
  shows "\<exists>s. extract_section text A = Inr s \<and> s = strip body \<and> s = strip (body @ lit ''\<newline>'')
           \<and> \<not> sublist (lit ''## '' @ B) s \<and> strip s = s"
proof -
  have "extract_section text A = Inr (strip body)"
    using shape first_header next_header by (rule extract_between)
  moreover have "\<not> sublist (lit ''## '' @ B) (strip body)"
    using no_mention sublist_strip sublist_order.order_trans by blast
  ultimately show ?thesis
    by (simp add: strip_strip strip_newline)
qed

theorem extract_section_between_headers_witness:
  "\<exists>s. extract_section
         (lit ''\<newline>## Gap Analysis\<newline>This is the gap analysis content.\<newline>\<newline>## Recommendations\<newline>These are recommendations.\<newline>'')
         (lit ''Gap Analysis'') = Inr s
       \<and> s = strip (lit ''\<newline>This is the gap analysis content.\<newline>'')
       \<and> s = strip (lit ''\<newline>This is the gap analysis content.\<newline>'' @ lit ''\<newline>'')
       \<and> \<not> sublist (lit ''## '' @ lit ''Recommendations'') s \<and> strip s = s"
proof (rule extract_section_between_headers [where pre = "lit ''\<newline>''" and rest = "lit ''\<newline>These are recommendations.\<newline>''"])
  show "lit ''\<newline>## Gap Analysis\<newline>This is the gap analysis content.\<newline>\<newline>## Recommendations\<newline>These are recommendations.\<newline>'' =
    lit ''\<newline>'' @ (lit ''## '' @ lit ''Gap Analysis'') @ lit ''\<newline>This is the gap analysis content.\<newline>'' @ lit ''\<newline>## '' @ lit ''Recommendations'' @ lit ''\<newline>These are recommendations.\<newline>''"
    by (simp add: lit_def)
  show "\<not> sublist (lit ''## '' @ lit ''Gap Analysis'') (lit ''\<newline>'' @ butlast (lit ''## '' @ lit ''Gap Analysis''))"
    by (simp add: lit_def sublist_code)
  show "\<not> sublist (lit ''\<newline>## '') (lit ''\<newline>This is the gap analysis content.\<newline>'' @ butlast (lit ''\<newline>## ''))"
    by (simp add: lit_def sublist_code)
  show "\<not> sublist (lit ''## '' @ lit ''Recommendations'') (lit ''\<newline>This is the gap analysis content.\<newline>'')"
    by (simp add: lit_def sublist_code)
qed

section \<open>Formatting the sources for the prompt\<close>

lemma format_sources_loop_map:
  "format_sources_loop srcs acc =
     acc @ map (\<lambda>s. lit ''- '' @ title s @ lit '': '' @
                 (if 200 < length (content s) then take 200 (content s) @ lit ''...''
                  else take 200 (content s))) srcs"
  by (induction srcs arbitrary: acc) (simp_all add: Let_def)

lemma format_sources_item:
  assumes "i < length srcs" and "i < 5"
  shows "format_sources_loop (take 5 srcs) [] ! i =
           lit ''- '' @ title (srcs ! i) @ lit '': '' @
             (if 200 < length (content (srcs ! i)) then take 200 (content (srcs ! i)) @ lit ''...''
              else content (srcs ! i))"
  using assms by (simp add: format_sources_loop_map)

text \<open>
  Claim C8. \<open>_format_sources\<close> joins with newlines one item per source among the first five
  of the list. For the source at a position \<open>i\<close> of those: when its content is longer than
  200 characters the item is \<open>"- " + title + ": "\<close> followed by the first 200 characters of
  the content and \<open>"..."\<close>; when its content is shorter than 200 characters the item ends with
  the content as it is.
\<close>

theorem format_sources_truncation:
  assumes "i < length srcs" and "i < 5"
  shows "format_sources srcs = str_join (lit ''\<newline>'') (format_sources_loop (take 5 srcs) [])
       \<and> length (format_sources_loop (take 5 srcs) []) = min 5 (length srcs)
       \<and> (200 < length (content (srcs ! i)) \<longrightarrow>
            format_sources_loop (take 5 srcs) [] ! i =
              lit ''- '' @ title (srcs ! i) @ lit '': '' @ take 200 (content (srcs ! i)) @ lit ''...'')
       \<and> (length (content (srcs ! i)) < 200 \<longrightarrow>
            format_sources_loop (take 5 srcs) [] ! i =
              lit ''- '' @ title (srcs ! i) @ lit '': '' @ content (srcs ! i))"
proof -
  have "length (format_sources_loop (take 5 srcs) []) = min 5 (length srcs)"
    by (simp add: format_sources_loop_map min.commute)
  then show ?thesis
    using format_sources_item[OF assms] by (simp add: format_sources_def)
qed

theorem format_sources_truncation_witness:
  "format_sources_loop
     (take 5 [\<lparr>title = lit ''Source 1'', url = lit ''https://example.com/1'',
                content = replicate 450 120, score = 0.9\<rparr>,
              \<lparr>title = lit ''Source 2'', url = lit ''https://example.com/2'',
                content = lit ''Short'', score = 0.8\<rparr>]) [] ! 0
     = lit ''- '' @ lit ''Source 1'' @ lit '': '' @ replicate 200 120 @ lit ''...''
   \<and> format_sources_loop
     (take 5 [\<lparr>title = lit ''Source 1'', url = lit ''https://example.com/1'',
                content = replicate 450 120, score = 0.9\<rparr>,
              \<lparr>title = lit ''Source 2'', url = lit ''https://example.com/2'',
                content = lit ''Short'', score = 0.8\<rparr>]) [] ! 1
     = lit ''- '' @ lit ''Source 2'' @ lit '': '' @ lit ''Short''"
  using format_sources_truncation [of 0 "[\<lparr>title = lit ''Source 1'', url = lit ''https://example.com/1'',
                content = replicate 450 120, score = 0.9\<rparr>,
              \<lparr>title = lit ''Source 2'', url = lit ''https://example.com/2'',
                content = lit ''Short'', score = 0.8\<rparr>]"]
    format_sources_truncation [of 1 "[\<lparr>title = lit ''Source 1'', url = lit ''https://example.com/1'',
                content = replicate 450 120, score = 0.9\<rparr>,
              \<lparr>title = lit ''Source 2'', url = lit ''https://example.com/2'',
                content = lit ''Short'', score = 0.8\<rparr>]"]
  by (simp add: lit_def)

text \<open>
  Claim C10. For a source among the first five whose content is exactly 200 characters long,
  the item ends with the content as it is; the item is the 200-character prefix followed by
  \<open>"..."\<close> exactly when the content is longer than 200 characters, so up to and including
  200 characters nothing is appended.
\<close>

theorem format_sources_boundary:
  assumes "i < length srcs" and "i < 5"
  shows "(length (content (srcs ! i)) = 200 \<longrightarrow>
            format_sources_loop (take 5 srcs) [] ! i =
              lit ''- '' @ title (srcs ! i) @ lit '': '' @ content (srcs ! i))
       \<and> (format_sources_loop (take 5 srcs) [] ! i =
              lit ''- '' @ title (srcs ! i) @ lit '': '' @ take 200 (content (srcs ! i)) @ lit ''...''
            \<longleftrightarrow> 200 < length (content (srcs ! i)))
       \<and> (length (content (srcs ! i)) \<le> 200 \<longrightarrow>
            format_sources_loop (take 5 srcs) [] ! i =
              lit ''- '' @ title (srcs ! i) @ lit '': '' @ content (srcs ! i))"
proof (cases "200 < length (content (srcs ! i))")
  case True
  then show ?thesis
    using format_sources_item[OF assms] by simp
next
  case False
  then have "take 200 (content (srcs ! i)) = content (srcs ! i)" by simp
  moreover have "content (srcs ! i) \<noteq> content (srcs ! i) @ lit ''...''"
    by (simp add: lit_def)
  ultimately show ?thesis
    using False format_sources_item[OF assms] by simp
qed

theorem format_sources_boundary_witness:
  "format_sources_loop
     (take 5 [\<lparr>title = lit ''T'', url = lit ''u'', content = replicate 200 120, score = 0.5\<rparr>]) [] ! 0
     = lit ''- '' @ lit ''T'' @ lit '': '' @ replicate 200 120
   \<and> format_sources_loop
     (take 5 [\<lparr>title = lit ''T'', url = lit ''u'', content = replicate 200 120, score = 0.5\<rparr>]) [] ! 0
     \<noteq> lit ''- '' @ lit ''T'' @ lit '': '' @ replicate 200 120 @ lit ''...''"
  using format_sources_boundary [of 0 "[\<lparr>title = lit ''T'', url = lit ''u'', content = replicate 200 120, score = 0.5\<rparr>]"]
  by simp

section \<open>Looking up a domain\<close>

lemma get_domain_config_loop_find:
  assumes "\<forall>d\<in>set ds. \<exists>v. subscript d (lit ''id'') = Inr v"
  shows "get_domain_config_loop ds domain_id =
           Inr (find (\<lambda>d. subscript d (lit ''id'') = Inr (JStr domain_id)) ds)"
  using assms by (induction ds) auto

lemma subscript_object:
  "d = JObj kvs \<Longrightarrow> map_of kvs key = Some v \<Longrightarrow> subscript d key = Inr v"
  by simp

text \<open>
  Claim C6, as first stated: for every configuration document the lookup never raises.
  \<open>domain["id"]\<close> is a plain subscript, so an entry of \<open>domains\<close> without the key \<open>id\<close>
  that the loop reaches raises \<open>KeyError\<close>.
\<close>

theorem get_domain_config_counterexample:
  "get_domain_config
     [(lit ''domains'', JArr [JObj [(lit ''name'', JStr (lit ''Test Domain''))]])]
     (lit ''test-domain'') = Inl KeyError"
  by (simp add: get_domain_config_def dict_get_def lit_def)

text \<open>
  Claim C6, amended. For every configuration that has no \<open>domains\<close> entry, or whose
  \<open>domains\<close> is a list of objects that each have an \<open>id\<close>, and for every identifier, the
  lookup raises nothing: it returns the first entry whose \<open>id\<close> equals the identifier when
  there is one, and none when no entry matches (in particular when there is no \<open>domains\<close>
  list).
\<close>

theorem get_domain_config_lookup:
  assumes domains: "map_of config (lit ''domains'') = None \<and> ds = []
                    \<or> map_of config (lit ''domains'') = Some (JArr ds)"
    and ids: "\<forall>d\<in>set ds. \<exists>kvs v. d = JObj kvs \<and> map_of kvs (lit ''id'') = Some v"
  shows "get_domain_config config domain_id =
           Inr (find (\<lambda>d. subscript d (lit ''id'') = Inr (JStr domain_id)) ds)
       \<and> ((\<exists>d\<in>set ds. subscript d (lit ''id'') = Inr (JStr domain_id)) \<longrightarrow>
            (\<exists>d\<in>set ds. get_domain_config config domain_id = Inr (Some d)
                         \<and> subscript d (lit ''id'') = Inr (JStr domain_id)))
       \<and> ((\<forall>d\<in>set ds. subscript d (lit ''id'') \<noteq> Inr (JStr domain_id)) \<longrightarrow>
            get_domain_config config domain_id = Inr None)"
proof -
  let ?P = "\<lambda>d. subscript d (lit ''id'') = Inr (JStr domain_id)"
  have it: "iterate (dict_get config (lit ''domains'') (JArr [])) = Inr ds"
    using domains by (auto simp: dict_get_def)
  have "\<forall>d\<in>set ds. \<exists>v. subscript d (lit ''id'') = Inr v"
    using ids subscript_object by blast
  then have loop: "get_domain_config_loop ds domain_id = Inr (find ?P ds)"
    by (rule get_domain_config_loop_find)
  have res: "get_domain_config config domain_id = Inr (find ?P ds)"
    by (simp add: get_domain_config_def it loop)
  have hit: "(\<exists>d\<in>set ds. ?P d) \<longrightarrow> (\<exists>d\<in>set ds. find ?P ds = Some d \<and> ?P d)"
  proof
    assume "\<exists>d\<in>set ds. ?P d"
    then have "find ?P ds \<noteq> None" by (auto simp: find_None_iff)
    then obtain d where d: "find ?P ds = Some d" by blast
    then have "?P d" and "d \<in> set ds"
      by (auto simp: find_Some_iff)
    with d show "\<exists>d\<in>set ds. find ?P ds = Some d \<and> ?P d" by blast
  qed
  have miss: "(\<forall>d\<in>set ds. \<not> ?P d) \<longrightarrow> find ?P ds = None"
    by (simp add: find_None_iff)
  show ?thesis
    using res hit miss by simp
qed

theorem get_domain_config_lookup_witness:
  "get_domain_config
     [(lit ''version'', JStr (lit ''1.0'')),
      (lit ''domains'',
       JArr [JObj [(lit ''id'', JStr (lit ''other'')), (lit ''name'', JStr (lit ''Other''))],
             JObj [(lit ''id'', JStr (lit ''test-domain'')), (lit ''name'', JStr (lit ''Test Domain''))]])]
     (lit ''test-domain'')
   = Inr (Some (JObj [(lit ''id'', JStr (lit ''test-domain'')), (lit ''name'', JStr (lit ''Test Domain''))]))
   \<and> get_domain_config [(lit ''version'', JStr (lit ''1.0''))] (lit ''test-domain'') = Inr None"
proof -
  let ?d1 = "JObj [(lit ''id'', JStr (lit ''other'')), (lit ''name'', JStr (lit ''Other''))]"
  let ?d2 = "JObj [(lit ''id'', JStr (lit ''test-domain'')), (lit ''name'', JStr (lit ''Test Domain''))]"
  let ?config = "[(lit ''version'', JStr (lit ''1.0'')), (lit ''domains'', JArr [?d1, ?d2])]"
  have neq: "lit ''domains'' \<noteq> lit ''version''" by (simp add: lit_def)
  have domains: "map_of ?config (lit ''domains'') = None \<and> [?d1, ?d2] = []
                 \<or> map_of ?config (lit ''domains'') = Some (JArr [?d1, ?d2])"
    using neq by simp
  have ids: "\<forall>d\<in>set [?d1, ?d2]. \<exists>kvs v. d = JObj kvs \<and> map_of kvs (lit ''id'') = Some v"
    by simp
  have other: "lit ''other'' \<noteq> lit ''test-domain''" by (simp add: lit_def)
  have "get_domain_config ?config (lit ''test-domain'') =
          Inr (find (\<lambda>d. subscript d (lit ''id'') = Inr (JStr (lit ''test-domain''))) [?d1, ?d2])"
    using get_domain_config_lookup [OF domains ids] by blast
  then have hit: "get_domain_config ?config (lit ''test-domain'') = Inr (Some ?d2)"
    using other by simp
  have none: "map_of [(lit ''version'', JStr (lit ''1.0''))] (lit ''domains'') = None \<and> [] = []
              \<or> map_of [(lit ''version'', JStr (lit ''1.0''))] (lit ''domains'') = Some (JArr [])"
    using neq by simp
  have "get_domain_config [(lit ''version'', JStr (lit ''1.0''))] (lit ''test-domain'') =
          Inr (find (\<lambda>d. subscript d (lit ''id'') = Inr (JStr (lit ''test-domain''))) [])"
    using get_domain_config_lookup [OF none] by simp
  with hit show ?thesis by simp
qed

section \<open>The post-filter of the collect phase\<close>

lemma str_contains_sublist: "str_contains sub text \<longleftrightarrow> sublist sub text"
  by (simp add: str_contains_def scan_None_iff)

lemma collect_trends_loop_filter:
  "collect_trends_loop lower hints rs acc =
     acc @ map (\<lambda>r. \<lparr>title = title r, url = url r, content = content r, score = score r\<rparr>)
             (filter (\<lambda>r. \<not> (\<exists>t\<in>set (or_empty (exclude_terms hints)).
                               sublist (lower t) (lower (title r))
                               \<or> sublist (lower t) (lower (content r)))) rs)"
  by (induction rs arbitrary: acc)
     (simp_all add: Let_def list_ex_iff str_contains_sublist)

text \<open>
  Claim C2. For every list of search results and every list of excluded terms, the loop of
  \<open>collect_trends\<close> drops exactly the results whose lower-cased title or lower-cased content
  contains some lower-cased excluded term, and keeps all the others in their original
  order, each copied into a \<open>SearchResult\<close>. This holds whatever function \<open>str.lower\<close> is.
\<close>

theorem collect_trends_post_filter:
  "collect_trends_loop lower hints rs [] =
     map (\<lambda>r. \<lparr>title = title r, url = url r, content = content r, score = score r\<rparr>)
       (filter (\<lambda>r. \<not> (\<exists>t\<in>set (or_empty (exclude_terms hints)).
                         sublist (lower t) (lower (title r))
                         \<or> sublist (lower t) (lower (content r)))) rs)"
  by (simp add: collect_trends_loop_filter)

theorem collect_trends_post_filter_witness:
  "collect_trends_loop ascii_lower
     \<lparr>primary_keywords = [lit ''skill'', lit ''docs''], focus_areas = [lit ''clarity''],
      exclude_domains = None, exclude_terms = Some [lit ''Spam'']\<rparr>
     [\<lparr>title = lit ''Writing docs'', url = lit ''https://a.example'',
       content = lit ''Clear examples help.'', score = 0.9\<rparr>,
      \<lparr>title = lit ''Offer'', url = lit ''https://b.example'',
       content = lit ''Buy SPAM now'', score = 0.8\<rparr>] []
   = [\<lparr>title = lit ''Writing docs'', url = lit ''https://a.example'',
       content = lit ''Clear examples help.'', score = 0.9\<rparr>]"
  using collect_trends_post_filter [of ascii_lower
     "\<lparr>primary_keywords = [lit ''skill'', lit ''docs''], focus_areas = [lit ''clarity''],
      exclude_domains = None, exclude_terms = Some [lit ''Spam'']\<rparr>"
     "[\<lparr>title = lit ''Writing docs'', url = lit ''https://a.example'',
       content = lit ''Clear examples help.'', score = 0.9\<rparr>,
      \<lparr>title = lit ''Offer'', url = lit ''https://b.example'',
       content = lit ''Buy SPAM now'', score = 0.8\<rparr>]"]
  by (simp add: or_empty_def ascii_lower_def lit_def sublist_code)

section \<open>Retrying the API calls\<close>

lemma transient_cases:
  "transient r \<longleftrightarrow> (\<exists>e. r = Inl (RequestException e))"
  by (auto simp: transient_def split: sum.splits py_error.splits)

lemma retry_loop_stop:
  assumes "\<not> transient (request attempt) \<or> attempt = MAX_RETRIES - 1"
  shows "retry_loop ev request failed (attempt # rest) trace = (request attempt, trace @ [ev])"
  using assms
  by (auto simp: transient_def split: sum.splits py_error.splits)

lemma retry_loop_again:
  assumes "transient (request attempt)" and "attempt \<noteq> MAX_RETRIES - 1"
  shows "retry_loop ev request failed (attempt # rest) trace =
           retry_loop ev request failed rest (trace @ [ev, Sleep (RETRY_DELAY * (attempt + 1))])"
  using assms
  by (auto simp: transient_def split: sum.splits py_error.splits)

lemma retry_loop_backoff:
  assumes "k < MAX_RETRIES"
    and "\<forall>n<k. transient (request n)"
    and "k = MAX_RETRIES - 1 \<or> \<not> transient (request k)"
  shows "retry_loop ev request failed [0..<MAX_RETRIES] [] = (request k, linear_backoff ev k)"
proof -
  have upt3: "[0..<MAX_RETRIES] = [0, 1, 2]"
    by (simp add: MAX_RETRIES_def upt_rec)
  have again0: "transient (request 0) \<Longrightarrow>
      retry_loop ev request failed [0, 1, 2] [] =
        retry_loop ev request failed [1, 2] [ev, Sleep 2]"
    using retry_loop_again [of request 0 ev failed "[1, 2]" "[]"]
    by (simp add: MAX_RETRIES_def RETRY_DELAY_def del: retry_loop.simps)
  have again1: "transient (request 1) \<Longrightarrow>
      retry_loop ev request failed [1, 2] [ev, Sleep 2] =
        retry_loop ev request failed [2] [ev, Sleep 2, ev, Sleep 4]"
    using retry_loop_again [of request 1 ev failed "[2]" "[ev, Sleep 2]"]
    by (simp add: MAX_RETRIES_def RETRY_DELAY_def del: retry_loop.simps)
  have stop0: "\<not> transient (request 0) \<Longrightarrow>
      retry_loop ev request failed [0, 1, 2] [] = (request 0, [ev])"
    using retry_loop_stop [of request 0 ev failed "[1, 2]" "[]"]
    by (simp del: retry_loop.simps)
  have stop1: "\<not> transient (request 1) \<Longrightarrow>
      retry_loop ev request failed [1, 2] [ev, Sleep 2] =
        (request 1, [ev, Sleep 2, ev])"
    using retry_loop_stop [of request 1 ev failed "[2]" "[ev, Sleep 2]"]
    by (simp del: retry_loop.simps)
  have stop2:
      "retry_loop ev request failed [2] [ev, Sleep 2, ev, Sleep 4] =
        (request 2, [ev, Sleep 2, ev, Sleep 4, ev])"
    using retry_loop_stop [of request 2 ev failed "[]"
        "[ev, Sleep 2, ev, Sleep 4]"]
    by (simp add: MAX_RETRIES_def RETRY_DELAY_def del: retry_loop.simps)
  have lb0: "linear_backoff ev 0 = [ev]"
    by (simp add: linear_backoff_def RETRY_DELAY_def)
  have lb1: "linear_backoff ev 1 = [ev, Sleep 2, ev]"
    by (simp add: linear_backoff_def RETRY_DELAY_def)
  have lb2: "linear_backoff ev 2 = [ev, Sleep 2, ev, Sleep 4, ev]"
    by (simp add: linear_backoff_def RETRY_DELAY_def upt_rec)
  from assms(1) have "k = 0 \<or> k = 1 \<or> k = 2"
    unfolding MAX_RETRIES_def by arith
  then consider "k = 0" | "k = 1" | "k = 2"
    by blast
  then show ?thesis
  proof cases
    case 1
    with assms(3) have "\<not> transient (request 0)" by (simp add: MAX_RETRIES_def)
    then show ?thesis
      unfolding upt3 1 lb0 by (rule stop0)
  next
    case 2
    with assms(2) have t0: "transient (request 0)" by simp
    from 2 assms(3) have n1: "\<not> transient (request 1)" by (simp add: MAX_RETRIES_def)
    show ?thesis
      unfolding upt3 2 lb1 using again0[OF t0] stop1[OF n1] by (rule trans)
  next
    case 3
    with assms(2) have t0: "transient (request 0)" and t1: "transient (request 1)" by simp_all
    show ?thesis
      unfolding upt3 3 lb2 using again0[OF t0] again1[OF t1] stop2 by (simp only:)
  qed
qed

text \<open>
  Claim C4. \<open>TavilyClient.search\<close>, \<open>AnthropicClient.generate_response\<close> and
  \<open>GitHubClient.create_issue\<close> make at most \<open>MAX_RETRIES = 3\<close> attempts. Suppose the first \<open>k\<close>
  attempts (\<open>k < 3\<close>) each raise a \<open>RequestException\<close>, and attempt \<open>k + 1\<close> either is the
  third or does not raise one. Then each call sends its request \<open>k + 1\<close> times, sleeps
  \<open>RETRY_DELAY * n\<close> seconds after the failed attempt number \<open>n\<close> (before the \<open>n\<close>-th retry), and
  ends with the outcome of attempt \<open>k + 1\<close> as it is: its value, or the exception it raised.
  With \<open>k = 2\<close> and a third failure, that is the third \<open>RequestException\<close>, unmodified.
\<close>

theorem retry_linear_backoff:
  assumes "k < MAX_RETRIES"
    and "\<forall>n<k. transient (search_try n) \<and> transient (completion_try n) \<and> transient (creation_try n)"
    and "k = MAX_RETRIES - 1 \<or>
         (\<not> transient (search_try k) \<and> \<not> transient (completion_try k) \<and> \<not> transient (creation_try k))"
  shows "MAX_RETRIES = 3
       \<and> TavilyClient_search search_try query max_results inc exc =
           (search_try k,
            linear_backoff (TavilyPost query max_results (or_empty inc)
                              (or_empty exc)) k)
       \<and> AnthropicClient_generate_response completion_try system_prompt user_prompt temperature =
           (completion_try k, linear_backoff (AnthropicPost system_prompt user_prompt temperature) k)
       \<and> GitHubClient_create_issue creation_try ttl body labels assignees =
           (creation_try k, linear_backoff (IssuePost ttl body (or_empty labels) (or_empty assignees)) k)"
proof -
  have s: "\<forall>n<k. transient (search_try n)" and c: "\<forall>n<k. transient (completion_try n)"
    and i: "\<forall>n<k. transient (creation_try n)"
    using assms(2) by simp_all
  have s': "k = MAX_RETRIES - 1 \<or> \<not> transient (search_try k)"
    and c': "k = MAX_RETRIES - 1 \<or> \<not> transient (completion_try k)"
    and i': "k = MAX_RETRIES - 1 \<or> \<not> transient (creation_try k)"
    using assms(3) by auto
  show ?thesis
    unfolding TavilyClient_search_def AnthropicClient_generate_response_def
      GitHubClient_create_issue_def
    using retry_loop_backoff[OF assms(1) s s'] retry_loop_backoff[OF assms(1) c c']
      retry_loop_backoff[OF assms(1) i i']
    by (simp add: MAX_RETRIES_def)
qed

theorem retry_linear_backoff_witness:
  "TavilyClient_search (\<lambda>n. Inl (RequestException (lit ''timeout'')) :: py_error + unit)
       (lit ''q'') 10 None (Some [])
     = (Inl (RequestException (lit ''timeout'')),
        [TavilyPost (lit ''q'') 10 [] [], Sleep 2, TavilyPost (lit ''q'') 10 [] [], Sleep 4,
         TavilyPost (lit ''q'') 10 [] []])
   \<and> AnthropicClient_generate_response (\<lambda>n. Inl (RequestException (lit ''timeout'')))
       (lit ''s'') (lit ''u'') 0.3
     = (Inl (RequestException (lit ''timeout'')),
        [AnthropicPost (lit ''s'') (lit ''u'') 0.3, Sleep 2, AnthropicPost (lit ''s'') (lit ''u'') 0.3,
         Sleep 4, AnthropicPost (lit ''s'') (lit ''u'') 0.3])
   \<and> GitHubClient_create_issue (\<lambda>n. Inl (RequestException (lit ''timeout'')))
       (lit ''t'') (lit ''b'') (Some [lit ''l'']) None
     = (Inl (RequestException (lit ''timeout'')),
        [IssuePost (lit ''t'') (lit ''b'') [lit ''l''] [], Sleep 2,
         IssuePost (lit ''t'') (lit ''b'') [lit ''l''] [], Sleep 4,
         IssuePost (lit ''t'') (lit ''b'') [lit ''l''] []])"
  using retry_linear_backoff [of 2
      "\<lambda>n. Inl (RequestException (lit ''timeout'')) :: py_error + unit"
      "\<lambda>n. Inl (RequestException (lit ''timeout''))"
      "\<lambda>n. Inl (RequestException (lit ''timeout''))"
      "lit ''q''" 10 None "Some []" "lit ''s''" "lit ''u''" "0.3" "lit ''t''" "lit ''b''"
      "Some [lit ''l'']" None]
  by (simp add: MAX_RETRIES_def RETRY_DELAY_def transient_def linear_backoff_def or_empty_def upt_rec)

section \<open>Searching for the tracking issue\<close>

text \<open>
  Claim C5, as first stated: for every outcome of the issue-search request,
  \<open>find_existing_issue\<close> never raises. Only a \<open>RequestException\<close> is caught, and
  \<open>data["items"][0]\<close> is a plain subscript: a successful answer that reports a positive
  \<open>total_count\<close> and lists no item raises \<open>IndexError\<close>.
\<close>

theorem find_existing_issue_counterexample:
  "fst (GitHubClient_find_existing_issue (lit ''o/r'')
          (\<lambda>q. Inr \<lparr>total_count = 1, items = []\<rparr>) (lit ''[Dotfiles Kaizen] Docs''))
     = Inl IndexError"
  by (simp add: GitHubClient_find_existing_issue_def)

text \<open>
  Claim C5, amended. For every title prefix and every outcome of the issue-search request
  that is a \<open>RequestException\<close> or an answer whose \<open>total_count\<close> is positive exactly when
  it lists issues, \<open>find_existing_issue\<close> raises nothing: it returns the first listed issue
  when there is one, and none both when the answer lists no issue and when the request
  failed. It sends the one search request for
  \<open>repo:<repository> is:issue is:open in:title <prefix>\<close>.
\<close>

theorem find_existing_issue_never_raises:
  assumes outcome:
      "get (lit ''repo:'' @ repository @ lit '' is:issue is:open in:title '' @ title_prefix) = outcome"
    and kinds: "(\<exists>e. outcome = Inl (RequestException e))
                \<or> (\<exists>data. outcome = Inr data \<and> (0 < total_count data) = (items data \<noteq> []))"
  shows "GitHubClient_find_existing_issue repository get title_prefix =
           (Inr (case outcome of
                   Inl e \<Rightarrow> None
                 | Inr data \<Rightarrow> (case items data of [] \<Rightarrow> None | first # rest \<Rightarrow> Some first)),
            [IssueSearch (lit ''repo:'' @ repository @ lit '' is:issue is:open in:title '' @ title_prefix)])"
  using kinds
proof
  assume "\<exists>e. outcome = Inl (RequestException e)"
  then show ?thesis
    using outcome by (auto simp: GitHubClient_find_existing_issue_def)
next
  assume "\<exists>data. outcome = Inr data \<and> (0 < total_count data) = (items data \<noteq> [])"
  then obtain data where "outcome = Inr data" and "(0 < total_count data) = (items data \<noteq> [])"
    by blast
  then show ?thesis
    using outcome by (cases "items data") (simp_all add: GitHubClient_find_existing_issue_def)
qed

theorem find_existing_issue_never_raises_witness:
  "GitHubClient_find_existing_issue (lit ''o/r'')
       (\<lambda>q. Inr \<lparr>total_count = 2,
                  items = [\<lparr>number = 42, html_url = lit ''h42''\<rparr>, \<lparr>number = 7, html_url = lit ''h7''\<rparr>]\<rparr>)
       (lit ''[Dotfiles Kaizen] Docs'')
     = (Inr (Some \<lparr>number = 42, html_url = lit ''h42''\<rparr>),
        [IssueSearch (lit ''repo:'' @ lit ''o/r'' @ lit '' is:issue is:open in:title ''
                      @ lit ''[Dotfiles Kaizen] Docs'')])
   \<and> GitHubClient_find_existing_issue (lit ''o/r'')
       (\<lambda>q. Inr \<lparr>total_count = 0, items = []\<rparr>) (lit ''[Dotfiles Kaizen] Docs'')
     = (Inr None,
        [IssueSearch (lit ''repo:'' @ lit ''o/r'' @ lit '' is:issue is:open in:title ''
                      @ lit ''[Dotfiles Kaizen] Docs'')])
   \<and> GitHubClient_find_existing_issue (lit ''o/r'')
       (\<lambda>q. Inl (RequestException (lit ''503''))) (lit ''[Dotfiles Kaizen] Docs'')
     = (Inr None,
        [IssueSearch (lit ''repo:'' @ lit ''o/r'' @ lit '' is:issue is:open in:title ''
                      @ lit ''[Dotfiles Kaizen] Docs'')])"
  using find_existing_issue_never_raises [of
      "\<lambda>q. Inr \<lparr>total_count = 2,
                 items = [\<lparr>number = 42, html_url = lit ''h42''\<rparr>, \<lparr>number = 7, html_url = lit ''h7''\<rparr>]\<rparr>"
      "lit ''o/r''" "lit ''[Dotfiles Kaizen] Docs''"]
    find_existing_issue_never_raises [of
      "\<lambda>q. Inr \<lparr>total_count = 0, items = []\<rparr>" "lit ''o/r''" "lit ''[Dotfiles Kaizen] Docs''"]
    find_existing_issue_never_raises [of
      "\<lambda>q. Inl (RequestException (lit ''503''))" "lit ''o/r''" "lit ''[Dotfiles Kaizen] Docs''"]
  by simp

section \<open>The report phase\<close>

lemma retry_loop_trace_grows:
  "set tr \<subseteq> set (snd (retry_loop ev request failed as tr))"
proof (induction as arbitrary: tr)
  case Nil
  then show ?case by simp
next
  case (Cons attempt rest)
  have "set tr \<subseteq> set (tr @ [ev, Sleep (RETRY_DELAY * (attempt + 1))])" by auto
  also have "\<dots> \<subseteq> set (snd (retry_loop ev request failed rest
                                  (tr @ [ev, Sleep (RETRY_DELAY * (attempt + 1))])))"
    by (rule Cons.IH)
  finally have rec: "set tr \<subseteq> set (snd (retry_loop ev request failed rest
                                  (tr @ [ev, Sleep (RETRY_DELAY * (attempt + 1))])))" .
  show ?case
  proof (cases "transient (request attempt) \<and> attempt \<noteq> MAX_RETRIES - 1")
    case True
    then show ?thesis using rec by (simp add: retry_loop_again del: retry_loop.simps)
  next
    case False
    then have "retry_loop ev request failed (attempt # rest) tr = (request attempt, tr @ [ev])"
      by (intro retry_loop_stop) auto
    then show ?thesis by auto
  qed
qed

lemma retry_loop_sends:
  "as \<noteq> [] \<Longrightarrow> ev \<in> set (snd (retry_loop ev request failed as tr))"
proof (cases as)
  case Nil
  assume "as \<noteq> []"
  with Nil show ?thesis by simp
next
  case (Cons attempt rest)
  show ?thesis
  proof (cases "transient (request attempt) \<and> attempt \<noteq> MAX_RETRIES - 1")
    case True
    have "ev \<in> set (tr @ [ev, Sleep (RETRY_DELAY * (attempt + 1))])" by simp
    then have "ev \<in> set (snd (retry_loop ev request failed rest
                                (tr @ [ev, Sleep (RETRY_DELAY * (attempt + 1))])))"
      using retry_loop_trace_grows by blast
    then show ?thesis using True Cons by (simp add: retry_loop_again del: retry_loop.simps)
  next
    case False
    then have "retry_loop ev request failed (attempt # rest) tr = (request attempt, tr @ [ev])"
      by (intro retry_loop_stop) auto
    then show ?thesis using Cons by simp
  qed
qed

lemma retry_loop_trace_events:
  "set (snd (retry_loop ev request failed as tr)) \<subseteq> set tr \<union> {ev} \<union> range Sleep"
proof (induction as arbitrary: tr)
  case Nil
  then show ?case by auto
next
  case (Cons attempt rest)
  show ?case
  proof (cases "transient (request attempt) \<and> attempt \<noteq> MAX_RETRIES - 1")
    case True
    have "set (snd (retry_loop ev request failed rest
                      (tr @ [ev, Sleep (RETRY_DELAY * (attempt + 1))])))
            \<subseteq> set (tr @ [ev, Sleep (RETRY_DELAY * (attempt + 1))]) \<union> {ev} \<union> range Sleep"
      by (rule Cons.IH)
    also have "\<dots> \<subseteq> set tr \<union> {ev} \<union> range Sleep" by auto
    finally show ?thesis using True by (simp add: retry_loop_again del: retry_loop.simps)
  next
    case False
    then have "retry_loop ev request failed (attempt # rest) tr = (request attempt, tr @ [ev])"
      by (intro retry_loop_stop) auto
    then show ?thesis by auto
  qed
qed

lemma create_issue_trace:
  "IssuePost ttl body (or_empty labels) (or_empty assignees)
     \<in> set (snd (GitHubClient_create_issue post ttl body labels assignees))"
  "set (snd (GitHubClient_create_issue post ttl body labels assignees))
     \<subseteq> {IssuePost ttl body (or_empty labels) (or_empty assignees)} \<union> range Sleep"
proof -
  have "[0..<MAX_RETRIES] \<noteq> []" by (simp add: MAX_RETRIES_def)
  then show "IssuePost ttl body (or_empty labels) (or_empty assignees)
     \<in> set (snd (GitHubClient_create_issue post ttl body labels assignees))"
    unfolding GitHubClient_create_issue_def by (rule retry_loop_sends)
  show "set (snd (GitHubClient_create_issue post ttl body labels assignees))
     \<subseteq> {IssuePost ttl body (or_empty labels) (or_empty assignees)} \<union> range Sleep"
    unfolding GitHubClient_create_issue_def
    using retry_loop_trace_events [of _ _ _ _ "[]"] by simp
qed

lemma read_configured:
  assumes "config_ok config h"
  shows "(h @ [[lit ''dotfiles-kaizen'']]) !
           (case global_settings config of
              None \<Rightarrow> length h
            | Some gs \<Rightarrow> (case issue_labels gs of None \<Rightarrow> length h | Some a \<Rightarrow> a))
         = configured_labels config h"
  using assms
  by (auto simp: config_ok_def configured_labels_def nth_append split: option.splits)


lemma report_findings_create:
  assumes ok: "config_ok config h"
    and none: "fst (GitHubClient_find_existing_issue repository (issue_search env)
                     (lit ''[Dotfiles Kaizen] '' @ dom_name domain)) = Inr None"
  shows "report_findings env repository today now config domain research_output analysis_output h =
           (case fst (GitHubClient_create_issue (issue_post env) (issue_title domain today)
                        (issue_body domain now research_output analysis_output)
                        (Some (configured_labels config h @ [dom_id domain])) None) of
              Inl e \<Rightarrow> Inl e
            | Inr created \<Rightarrow> Inr (),
            snd (GitHubClient_find_existing_issue repository (issue_search env)
                   (lit ''[Dotfiles Kaizen] '' @ dom_name domain))
            @ snd (GitHubClient_create_issue (issue_post env) (issue_title domain today)
                     (issue_body domain now research_output analysis_output)
                     (Some (configured_labels config h @ [dom_id domain])) None),
            h @ [[lit ''dotfiles-kaizen''], configured_labels config h @ [dom_id domain]])"
proof -
  let ?a = "case global_settings config of
              None \<Rightarrow> length h
            | Some gs \<Rightarrow> (case issue_labels gs of None \<Rightarrow> length h | Some a \<Rightarrow> a)"
  let ?h1 = "h @ [[lit ''dotfiles-kaizen'']]"
  have rd: "?h1 ! ?a = configured_labels config h"
    using ok by (rule read_configured)
  have upd: "list_append (h @ [[lit ''dotfiles-kaizen''], configured_labels config h])
                 (Suc (length h)) (dom_id domain) =
               h @ [[lit ''dotfiles-kaizen''], configured_labels config h @ [dom_id domain]]"
    by (simp add: list_append_def nth_append list_update_append)
  have rd3: "(h @ [[lit ''dotfiles-kaizen''], configured_labels config h @ [dom_id domain]]) !
               Suc (length h) = configured_labels config h @ [dom_id domain]"
    by (simp add: nth_append)
  obtain found tr where f: "GitHubClient_find_existing_issue repository (issue_search env)
                     (lit ''[Dotfiles Kaizen] '' @ dom_name domain) = (found, tr)"
    by (cases "GitHubClient_find_existing_issue repository (issue_search env)
                     (lit ''[Dotfiles Kaizen] '' @ dom_name domain)")
  with none have fn: "found = Inr None" by simp
  obtain r tr2 where c: "GitHubClient_create_issue (issue_post env) (issue_title domain today)
                        (issue_body domain now research_output analysis_output)
                        (Some (configured_labels config h @ [dom_id domain])) None = (r, tr2)"
    by (cases "GitHubClient_create_issue (issue_post env) (issue_title domain today)
                        (issue_body domain now research_output analysis_output)
                        (Some (configured_labels config h @ [dom_id domain])) None")
  show ?thesis
    unfolding report_findings_def Let_def f fn new_list_def
    by (simp add: rd upd rd3 c split: sum.splits)
qed


lemma find_existing_issue_trace:
  "snd (GitHubClient_find_existing_issue repository get title_prefix) =
     [IssueSearch (lit ''repo:'' @ repository @ lit '' is:issue is:open in:title '' @ title_prefix)]"
  by (simp add: GitHubClient_find_existing_issue_def Let_def)

lemma report_findings_comment:
  assumes "fst (GitHubClient_find_existing_issue repository (issue_search env)
                 (lit ''[Dotfiles Kaizen] '' @ dom_name domain)) = Inr (Some found)"
  shows "report_findings env repository today now config domain research_output analysis_output h =
           (case fst (GitHubClient_add_comment (comment_post env) (number found)
                        (comment_body today research_output analysis_output)) of
              Inl e \<Rightarrow> Inl e
            | Inr posted \<Rightarrow> Inr (),
            snd (GitHubClient_find_existing_issue repository (issue_search env)
                   (lit ''[Dotfiles Kaizen] '' @ dom_name domain))
            @ [CommentPost (number found) (comment_body today research_output analysis_output)],
            h)"
proof -
  obtain r tr where f: "GitHubClient_find_existing_issue repository (issue_search env)
                     (lit ''[Dotfiles Kaizen] '' @ dom_name domain) = (r, tr)"
    by (cases "GitHubClient_find_existing_issue repository (issue_search env)
                     (lit ''[Dotfiles Kaizen] '' @ dom_name domain)")
  with assms have fn: "r = Inr (Some found)" by simp
  show ?thesis
    unfolding report_findings_def Let_def f fn
    by (simp add: GitHubClient_add_comment_def split: sum.splits)
qed

lemma report_findings_search_error:
  assumes "fst (GitHubClient_find_existing_issue repository (issue_search env)
                 (lit ''[Dotfiles Kaizen] '' @ dom_name domain)) = Inl e"
  shows "report_findings env repository today now config domain research_output analysis_output h =
           (Inl e,
            snd (GitHubClient_find_existing_issue repository (issue_search env)
                   (lit ''[Dotfiles Kaizen] '' @ dom_name domain)),
            h)"
proof -
  obtain r tr where f: "GitHubClient_find_existing_issue repository (issue_search env)
                     (lit ''[Dotfiles Kaizen] '' @ dom_name domain) = (r, tr)"
    by (cases "GitHubClient_find_existing_issue repository (issue_search env)
                     (lit ''[Dotfiles Kaizen] '' @ dom_name domain)")
  with assms have fn: "r = Inl e" by simp
  show ?thesis
    unfolding report_findings_def Let_def f fn by simp
qed

lemma find_existing_issue_no_match:
  assumes "(\<exists>data. get (lit ''repo:'' @ repository @ lit '' is:issue is:open in:title '' @ title_prefix)
                     = Inr data \<and> total_count data \<le> 0)
           \<or> (\<exists>e. get (lit ''repo:'' @ repository @ lit '' is:issue is:open in:title '' @ title_prefix)
                     = Inl (RequestException e))"
  shows "fst (GitHubClient_find_existing_issue repository get title_prefix) = Inr None"
  using assms by (auto simp: GitHubClient_find_existing_issue_def Let_def)

lemma find_existing_issue_match:
  assumes "get (lit ''repo:'' @ repository @ lit '' is:issue is:open in:title '' @ title_prefix) = Inr data"
    and "0 < total_count data" and "items data = found # rest"
  shows "fst (GitHubClient_find_existing_issue repository get title_prefix) = Inr (Some found)"
  using assms by (simp add: GitHubClient_find_existing_issue_def Let_def)

text \<open>
  Claim C1. Let \<open>q\<close> be the search for an open issue of the repository whose title contains
  \<open>"[Dotfiles Kaizen] " + name\<close>. When the search answers with no match (or fails with a
  \<open>RequestException\<close>), the report phase sends after the search nothing but attempts to
  create one issue (and the sleeps between them), at least one, each with the title
  \<open>"[Dotfiles Kaizen] " + name + " - " + today\<close>, the computed body and the labels
  \<open>configured labels + [domain id]\<close>; no comment is posted. When the search answers with a
  match, the phase sends after the search exactly one comment, to the number of the first
  matching issue, and no request to create an issue.
\<close>

theorem report_findings_find_or_create:
  fixes env :: github_env and repository today now :: pystr and config :: kaizen_config
    and domain :: domain_config and research_output :: ResearchOutput
    and analysis_output :: AnalysisOutput and h :: heap
  defines "q \<equiv> lit ''repo:'' @ repository @ lit '' is:issue is:open in:title ''
                 @ lit ''[Dotfiles Kaizen] '' @ dom_name domain"
    and "trace \<equiv> fst (snd (report_findings env repository today now config domain
                               research_output analysis_output h))"
    and "created \<equiv> IssuePost (lit ''[Dotfiles Kaizen] '' @ dom_name domain @ lit '' - '' @ today)
                        (issue_body domain now research_output analysis_output)
                        (configured_labels config h @ [dom_id domain]) []"
  assumes ok: "config_ok config h"
  shows "((\<exists>data. issue_search env q = Inr data \<and> total_count data \<le> 0)
          \<or> (\<exists>e. issue_search env q = Inl (RequestException e))
          \<longrightarrow> (\<exists>attempts. trace = IssueSearch q # attempts \<and> created \<in> set attempts
                           \<and> set attempts \<subseteq> {created} \<union> range Sleep))
       \<and> (\<forall>data found rest.
             issue_search env q = Inr data \<and> 0 < total_count data \<and> items data = found # rest
             \<longrightarrow> trace = [IssueSearch q,
                          CommentPost (number found)
                            (comment_body today research_output analysis_output)])"
proof (intro conjI impI allI)
  assume "(\<exists>data. issue_search env q = Inr data \<and> total_count data \<le> 0)
          \<or> (\<exists>e. issue_search env q = Inl (RequestException e))"
  then have "fst (GitHubClient_find_existing_issue repository (issue_search env)
                    (lit ''[Dotfiles Kaizen] '' @ dom_name domain)) = Inr None"
    unfolding q_def by (rule find_existing_issue_no_match)
  with ok have run: "trace =
      snd (GitHubClient_find_existing_issue repository (issue_search env)
             (lit ''[Dotfiles Kaizen] '' @ dom_name domain))
      @ snd (GitHubClient_create_issue (issue_post env) (issue_title domain today)
               (issue_body domain now research_output analysis_output)
               (Some (configured_labels config h @ [dom_id domain])) None)"
    unfolding trace_def by (simp add: report_findings_create)
  let ?attempts = "snd (GitHubClient_create_issue (issue_post env) (issue_title domain today)
               (issue_body domain now research_output analysis_output)
               (Some (configured_labels config h @ [dom_id domain])) None)"
  have ev: "IssuePost (issue_title domain today)
              (issue_body domain now research_output analysis_output)
              (or_empty (Some (configured_labels config h @ [dom_id domain]))) (or_empty None)
            = created"
    by (simp add: created_def issue_title_def or_empty_def)
  have "trace = IssueSearch q # ?attempts"
    using run by (simp add: find_existing_issue_trace q_def)
  moreover have "created \<in> set ?attempts"
    using create_issue_trace(1) [of "issue_title domain today"
        "issue_body domain now research_output analysis_output"
        "Some (configured_labels config h @ [dom_id domain])" None "issue_post env"]
    by (simp only: ev)
  moreover have "set ?attempts \<subseteq> {created} \<union> range Sleep"
    using create_issue_trace(2) [of "issue_post env" "issue_title domain today"
        "issue_body domain now research_output analysis_output"
        "Some (configured_labels config h @ [dom_id domain])" None]
    by (simp only: ev)
  ultimately show "\<exists>attempts. trace = IssueSearch q # attempts \<and> created \<in> set attempts
                     \<and> set attempts \<subseteq> {created} \<union> range Sleep"
    by blast
next
  fix data found rest
  assume "issue_search env q = Inr data \<and> 0 < total_count data \<and> items data = found # rest"
  then have "fst (GitHubClient_find_existing_issue repository (issue_search env)
                    (lit ''[Dotfiles Kaizen] '' @ dom_name domain)) = Inr (Some found)"
    unfolding q_def by (intro find_existing_issue_match [of _ _ _ data found rest]) simp_all
  then show "trace = [IssueSearch q,
                       CommentPost (number found)
                         (comment_body today research_output analysis_output)]"
    unfolding trace_def by (simp add: report_findings_comment find_existing_issue_trace q_def)
qed

theorem report_findings_find_or_create_witness:
  fixes E1 E2 :: github_env and C :: kaizen_config and D :: domain_config
    and RO :: ResearchOutput and AO :: AnalysisOutput and H :: heap and Q :: pystr
  defines "E1 \<equiv> \<lparr>issue_search = (\<lambda>q. Inr \<lparr>total_count = 0, items = []\<rparr>),
                   comment_post = Inr JNull,
                   issue_post = (\<lambda>n. Inr \<lparr>number = 7, html_url = lit ''https://t.example/7''\<rparr>)\<rparr>"
    and "E2 \<equiv> \<lparr>issue_search =
                     (\<lambda>q. Inr \<lparr>total_count = 1,
                                items = [\<lparr>number = 42, html_url = lit ''https://t.example/42''\<rparr>]\<rparr>),
                   comment_post = Inr JNull,
                   issue_post = (\<lambda>n. Inr \<lparr>number = 7, html_url = lit ''https://t.example/7''\<rparr>)\<rparr>"
    and "C \<equiv> \<lparr>global_settings =
                    Some \<lparr>max_search_results = Some 5, analysis_temperature = Some 0.3,
                          issue_labels = Some 0\<rparr>\<rparr>"
    and "H \<equiv> [[lit ''test-label'']]"
    and "D \<equiv> \<lparr>dom_id = lit ''test-domain'', dom_name = lit ''Test Domain'',
                  dom_search_hints = \<lparr>primary_keywords = [], focus_areas = [],
                                        exclude_domains = None, exclude_terms = None\<rparr>\<rparr>"
    and "RO \<equiv> \<lparr>sources = [], summary = lit ''Summary'', search_query = lit ''test 2026''\<rparr>"
    and "AO \<equiv> \<lparr>gap_analysis = [], recommendations = [], implementation_guide = [],
                   full_response = lit ''Response''\<rparr>"
    and "Q \<equiv> lit ''repo:'' @ lit ''o/r'' @ lit '' is:issue is:open in:title ''
                 @ lit ''[Dotfiles Kaizen] '' @ lit ''Test Domain''"
  shows "(\<exists>attempts.
            fst (snd (report_findings E1 (lit ''o/r'') (lit ''2026-01-05'')
                        (lit ''2026-01-05 00:00:00 UTC'') C D RO AO H))
              = IssueSearch Q # attempts
            \<and> IssuePost (lit ''[Dotfiles Kaizen] '' @ lit ''Test Domain'' @ lit '' - '' @ lit ''2026-01-05'')
                  (issue_body D (lit ''2026-01-05 00:00:00 UTC'') RO AO)
                  [lit ''test-label'', lit ''test-domain''] [] \<in> set attempts
            \<and> set attempts \<subseteq>
                {IssuePost (lit ''[Dotfiles Kaizen] '' @ lit ''Test Domain'' @ lit '' - '' @ lit ''2026-01-05'')
                   (issue_body D (lit ''2026-01-05 00:00:00 UTC'') RO AO)
                   [lit ''test-label'', lit ''test-domain''] []} \<union> range Sleep)
       \<and> fst (snd (report_findings E2 (lit ''o/r'') (lit ''2026-01-05'')
                      (lit ''2026-01-05 00:00:00 UTC'') C D RO AO H))
           = [IssueSearch Q, CommentPost 42 (comment_body (lit ''2026-01-05'') RO AO)]"
proof -
  have ok: "config_ok C H"
    by (simp add: config_ok_def C_def H_def)
  have labels: "configured_labels C H @ [dom_id D] = [lit ''test-label'', lit ''test-domain'']"
    by (simp add: configured_labels_def C_def H_def D_def)
  have name: "dom_name D = lit ''Test Domain''"
    by (simp add: D_def)
  note create = report_findings_find_or_create
      [OF ok, where env = E1 and repository = "lit ''o/r''" and domain = D
         and today = "lit ''2026-01-05''" and now = "lit ''2026-01-05 00:00:00 UTC''"
         and research_output = RO and analysis_output = AO, THEN conjunct1]
  note comment = report_findings_find_or_create
      [OF ok, where env = E2 and repository = "lit ''o/r''" and domain = D
         and today = "lit ''2026-01-05''" and now = "lit ''2026-01-05 00:00:00 UTC''"
         and research_output = RO and analysis_output = AO, THEN conjunct2, rule_format,
       of "\<lparr>total_count = 1, items = [\<lparr>number = 42, html_url = lit ''https://t.example/42''\<rparr>]\<rparr>"
          "\<lparr>number = 42, html_url = lit ''https://t.example/42''\<rparr>" "[]"]
  have none: "\<exists>data. issue_search E1 Q = Inr data \<and> total_count data \<le> 0"
    by (simp add: E1_def)
  have first: "\<exists>attempts.
            fst (snd (report_findings E1 (lit ''o/r'') (lit ''2026-01-05'')
                        (lit ''2026-01-05 00:00:00 UTC'') C D RO AO H))
              = IssueSearch Q # attempts
            \<and> IssuePost (lit ''[Dotfiles Kaizen] '' @ lit ''Test Domain'' @ lit '' - '' @ lit ''2026-01-05'')
                  (issue_body D (lit ''2026-01-05 00:00:00 UTC'') RO AO)
                  [lit ''test-label'', lit ''test-domain''] [] \<in> set attempts
            \<and> set attempts \<subseteq>
                {IssuePost (lit ''[Dotfiles Kaizen] '' @ lit ''Test Domain'' @ lit '' - '' @ lit ''2026-01-05'')
                   (issue_body D (lit ''2026-01-05 00:00:00 UTC'') RO AO)
                   [lit ''test-label'', lit ''test-domain''] []} \<union> range Sleep"
    using create none unfolding labels name Q_def by blast
  have second: "fst (snd (report_findings E2 (lit ''o/r'') (lit ''2026-01-05'')
                      (lit ''2026-01-05 00:00:00 UTC'') C D RO AO H))
           = [IssueSearch Q, CommentPost 42 (comment_body (lit ''2026-01-05'') RO AO)]"
    using comment unfolding name Q_def by (simp add: E2_def)
  from first second show ?thesis by blast
qed

lemma report_findings_store:
  assumes ok: "config_ok config h"
  shows "take (length h) (snd (snd (report_findings env repository today now config domain
                                      research_output analysis_output h))) = h"
proof (cases "fst (GitHubClient_find_existing_issue repository (issue_search env)
                    (lit ''[Dotfiles Kaizen] '' @ dom_name domain))")
  case (Inl e)
  then show ?thesis by (simp add: report_findings_search_error)
next
  case (Inr found)
  show ?thesis
  proof (cases found)
    case None
    with Inr ok show ?thesis by (simp add: report_findings_create)
  next
    case (Some issue)
    with Inr show ?thesis by (simp add: report_findings_comment)
  qed
qed

lemma report_findings_labels_sent:
  assumes ok: "config_ok config h"
    and sent: "IssuePost t b l a \<in> set (fst (snd (report_findings env repository today now config
                                                     domain research_output analysis_output h)))"
  shows "l = configured_labels config h @ [dom_id domain]"
proof (cases "fst (GitHubClient_find_existing_issue repository (issue_search env)
                    (lit ''[Dotfiles Kaizen] '' @ dom_name domain))")
  case (Inl e)
  with sent show ?thesis
    by (simp add: report_findings_search_error find_existing_issue_trace)
next
  case (Inr found)
  show ?thesis
  proof (cases found)
    case None
    with Inr ok sent have "IssuePost t b l a \<in>
        set (snd (GitHubClient_create_issue (issue_post env) (issue_title domain today)
               (issue_body domain now research_output analysis_output)
               (Some (configured_labels config h @ [dom_id domain])) None))"
      by (simp add: report_findings_create find_existing_issue_trace)
    then have "IssuePost t b l a \<in>
        {IssuePost (issue_title domain today)
           (issue_body domain now research_output analysis_output)
           (or_empty (Some (configured_labels config h @ [dom_id domain]))) (or_empty None)}
        \<union> range Sleep"
      using create_issue_trace(2) by blast
    then show ?thesis by (auto simp: or_empty_def)
  next
    case (Some issue)
    with Inr sent show ?thesis
      by (simp add: report_findings_comment find_existing_issue_trace)
  qed
qed

lemma config_ok_take:
  assumes "config_ok config h" and "take (length h) h' = h"
  shows "config_ok config h' \<and> configured_labels config h' = configured_labels config h"
proof -
  have "length (take (length h) h') = length h"
    using assms(2) by simp
  then have len: "length h \<le> length h'"
    by simp
  have nth: "h' ! a = h ! a" if "a < length h" for a
  proof -
    have "take (length h) h' ! a = h' ! a"
      using that by (rule nth_take)
    then show ?thesis
      using assms(2) by simp
  qed
  show ?thesis
    using assms(1) len nth
    by (auto simp: config_ok_def configured_labels_def split: option.splits)
qed

text \<open>
  Claim C9. The report phase does not change any list object that existed before it ran,
  the configured \<open>issue_labels\<close> list among them: the domain identifier is appended to a
  fresh copy. So the label list of the configuration reads the same after the run, and any
  later run of the phase on the resulting store, whatever the tracker answers then, sends
  the labels of the original list followed by its own domain identifier.
\<close>

theorem report_findings_keeps_config:
  fixes env :: github_env and repository today now :: pystr and config :: kaizen_config
    and domain :: domain_config and research_output :: ResearchOutput
    and analysis_output :: AnalysisOutput and h :: heap
  assumes ok: "config_ok config h"
  defines "h' \<equiv> snd (snd (report_findings env repository today now config domain
                             research_output analysis_output h))"
  shows "take (length h) h' = h
       \<and> configured_labels config h' = configured_labels config h
       \<and> (\<forall>t b l a. IssuePost t b l a
                       \<in> set (fst (snd (report_findings env2 repository2 today2 now2 config domain2
                                          research_output2 analysis_output2 h')))
                     \<longrightarrow> l = configured_labels config h @ [dom_id domain2])"
proof -
  have frame: "take (length h) h' = h"
    unfolding h'_def using ok by (rule report_findings_store)
  with ok have same: "config_ok config h' \<and> configured_labels config h' = configured_labels config h"
    by (rule config_ok_take)
  have "\<forall>t b l a. IssuePost t b l a
                       \<in> set (fst (snd (report_findings env2 repository2 today2 now2 config domain2
                                          research_output2 analysis_output2 h')))
                     \<longrightarrow> l = configured_labels config h' @ [dom_id domain2]"
    using same report_findings_labels_sent by blast
  with frame same show ?thesis by simp
qed

theorem report_findings_keeps_config_witness:
  fixes E1 :: github_env and C :: kaizen_config and D :: domain_config
    and RO :: ResearchOutput and AO :: AnalysisOutput and H :: heap
  defines "E1 \<equiv> \<lparr>issue_search = (\<lambda>q. Inr \<lparr>total_count = 0, items = []\<rparr>),
                   comment_post = Inr JNull,
                   issue_post = (\<lambda>n. Inr \<lparr>number = 7, html_url = lit ''https://t.example/7''\<rparr>)\<rparr>"
    and "C \<equiv> \<lparr>global_settings =
                    Some \<lparr>max_search_results = Some 5, analysis_temperature = Some 0.3,
                          issue_labels = Some 0\<rparr>\<rparr>"
    and "H \<equiv> [[lit ''test-label'']]"
    and "D \<equiv> \<lparr>dom_id = lit ''test-domain'', dom_name = lit ''Test Domain'',
                  dom_search_hints = \<lparr>primary_keywords = [], focus_areas = [],
                                        exclude_domains = None, exclude_terms = None\<rparr>\<rparr>"
    and "RO \<equiv> \<lparr>sources = [], summary = lit ''Summary'', search_query = lit ''test 2026''\<rparr>"
    and "AO \<equiv> \<lparr>gap_analysis = [], recommendations = [], implementation_guide = [],
                   full_response = lit ''Response''\<rparr>"
  shows "take 1 (snd (snd (report_findings E1 (lit ''o/r'') (lit ''2026-01-05'')
                             (lit ''2026-01-05 00:00:00 UTC'') C D RO AO H))) = [[lit ''test-label'']]
       \<and> configured_labels C
            (snd (snd (report_findings E1 (lit ''o/r'') (lit ''2026-01-05'')
                         (lit ''2026-01-05 00:00:00 UTC'') C D RO AO H))) = [lit ''test-label'']
       \<and> snd (snd (report_findings E1 (lit ''o/r'') (lit ''2026-01-05'')
                      (lit ''2026-01-05 00:00:00 UTC'') C D RO AO H))
           = [[lit ''test-label''], [lit ''dotfiles-kaizen''], [lit ''test-label'', lit ''test-domain'']]"
proof -
  have ok: "config_ok C H"
    by (simp add: config_ok_def C_def H_def)
  have before: "configured_labels C H = [lit ''test-label'']"
    by (simp add: configured_labels_def C_def H_def)
  have len: "length H = 1"
    by (simp add: H_def)
  note keep = report_findings_keeps_config
      [OF ok, where env = E1 and repository = "lit ''o/r''" and domain = D
         and today = "lit ''2026-01-05''" and now = "lit ''2026-01-05 00:00:00 UTC''"
         and research_output = RO and analysis_output = AO]
  have frame: "take 1 (snd (snd (report_findings E1 (lit ''o/r'') (lit ''2026-01-05'')
                             (lit ''2026-01-05 00:00:00 UTC'') C D RO AO H))) = [[lit ''test-label'']]"
    using keep [THEN conjunct1] unfolding len by (simp add: H_def)
  have same: "configured_labels C
            (snd (snd (report_findings E1 (lit ''o/r'') (lit ''2026-01-05'')
                         (lit ''2026-01-05 00:00:00 UTC'') C D RO AO H))) = [lit ''test-label'']"
    using keep [THEN conjunct2, THEN conjunct1] unfolding before .
  have none: "fst (GitHubClient_find_existing_issue (lit ''o/r'') (issue_search E1)
                     (lit ''[Dotfiles Kaizen] '' @ dom_name D)) = Inr None"
    by (simp add: GitHubClient_find_existing_issue_def E1_def)
  have store: "snd (snd (report_findings E1 (lit ''o/r'') (lit ''2026-01-05'')
                      (lit ''2026-01-05 00:00:00 UTC'') C D RO AO H))
           = [[lit ''test-label''], [lit ''dotfiles-kaizen''], [lit ''test-label'', lit ''test-domain'']]"
    using report_findings_create [OF ok none] before by (simp add: H_def D_def)
  from frame same store show ?thesis by blast
qed

end
